theory Spec2Isabelle
  imports Complex_Main "HOL-Library.Word"
begin

section \<open>Python values, strings and exceptions\<close>

text \<open>
  The repository is a small Python service layer: \<open>src/types/errors.py\<close> (the
  exception classes), \<open>src/config/settings.py\<close> (the \<open>Settings\<close> class) and
  \<open>src/services/file_service.py\<close> (the \<open>FileService\<close> class). Python \<open>str\<close> is
  modelled as \<open>string\<close>, each \<open>char\<close> read as one code point below 256; \<open>bytes\<close>
  as a list of 8-bit words; \<open>int\<close> as \<open>int\<close>. A float is only ever produced here by
  dividing a file size by \<open>1024 * 1024\<close>; that quotient is exact in binary64 for every
  size below \<open>2 ^ 53\<close> bytes, so it is modelled by the rational number it denotes.
\<close>

type_synonym bytes = "8 word list"

datatype pyval =
    PyNone
  | PyBool bool
  | PyInt int
  | PyFloat rat
  | PyStr string

text \<open>Truth value testing, as \<open>if x\<close>, \<open>not x\<close> and \<open>x and y\<close> apply it.\<close>

fun truthy :: "pyval \<Rightarrow> bool" where
  "truthy PyNone = False"
| "truthy (PyBool b) = b"
| "truthy (PyInt i) = (i \<noteq> 0)"
| "truthy (PyFloat r) = (r \<noteq> 0)"
| "truthy (PyStr s) = (s \<noteq> [])"

text \<open>
  \<open>str.lower()\<close> on code points below 256: the ASCII capitals and the Latin-1
  capitals \<open>0xC0..0xDE\<close> (without the multiplication sign \<open>0xD7\<close>) move up by 32,
  every other code point stays.
\<close>

definition lower_char :: "char \<Rightarrow> char" where
  "lower_char c =
     (let n = (of_char c :: nat)
      in if (65 \<le> n \<and> n \<le> 90) \<or> (192 \<le> n \<and> n \<le> 222 \<and> n \<noteq> 215)
         then char_of (n + 32) else c)"

definition lower :: "string \<Rightarrow> string" where
  "lower s = map lower_char s"

text \<open>\<open>s.startswith(p)\<close> and the substring test \<open>p in s\<close>.\<close>

definition startswith :: "string \<Rightarrow> string \<Rightarrow> bool" where
  "startswith s p = (take (length p) s = p)"


text \<open>\<open>s.find(c)\<close> and \<open>s.rfind(c)\<close> for a single character: \<open>None\<close> stands for \<open>-1\<close>.\<close>

fun find_char :: "char \<Rightarrow> string \<Rightarrow> nat option" where
  "find_char c [] = None"
| "find_char c (x # xs) =
     (if x = c then Some 0 else map_option Suc (find_char c xs))"

fun rfind_char :: "char \<Rightarrow> string \<Rightarrow> nat option" where
  "rfind_char c [] = None"
| "rfind_char c (x # xs) =
     (case rfind_char c xs of
        Some i \<Rightarrow> Some (Suc i)
      | None \<Rightarrow> if x = c then Some 0 else None)"

text \<open>\<open>s.split(sep)\<close> for a single-character separator.\<close>

fun split_on :: "char \<Rightarrow> string \<Rightarrow> string list" where
  "split_on sep [] = [[]]"
| "split_on sep (c # s) =
     (case split_on sep s of
        [] \<Rightarrow> [[c]]
      | w # ws \<Rightarrow> if c = sep then [] # w # ws else (c # w) # ws)"

text \<open>\<open>sep.join(parts)\<close>.\<close>

fun join :: "string \<Rightarrow> string list \<Rightarrow> string" where
  "join sep [] = []"
| "join sep [p] = p"
| "join sep (p # q # ps) = p @ sep @ join sep (q # ps)"

text \<open>
  The exceptions that can travel through the modelled code, each with its message
  (\<open>str(e)\<close>). The first five are the classes of \<open>src/types/errors.py\<close>, all derived from
  \<open>VisionServerError\<close>; \<open>file_service.py\<close> imports \<open>FileNotFoundError\<close> from there,
  so the name means the repository's class and not the built-in one. \<open>ValueError\<close>
  and \<open>OSError\<close> are built in, \<open>HTTPError\<close> stands for \<open>httpx.HTTPError\<close> and its
  subclasses (transport errors and \<open>HTTPStatusError\<close>), and \<open>OtherException\<close> for any
  other subclass of \<open>Exception\<close> a library call may raise.
\<close>

datatype exn =
    FileNotFoundError string
  | ValidationError string
  | NetworkError string
  | ApiError string
  | ConfigurationError string
  | ValueError string
  | OSError string
  | HTTPError string
  | OtherException string

fun str_of :: "exn \<Rightarrow> string" where
  "str_of (FileNotFoundError m) = m"
| "str_of (ValidationError m) = m"
| "str_of (NetworkError m) = m"
| "str_of (ApiError m) = m"
| "str_of (ConfigurationError m) = m"
| "str_of (ValueError m) = m"
| "str_of (OSError m) = m"
| "str_of (HTTPError m) = m"
| "str_of (OtherException m) = m"

text \<open>
  The \<open>error_code\<close> each \<open>VisionServerError\<close> subclass passes to its base class; the
  other exceptions have none.
\<close>

fun error_code :: "exn \<Rightarrow> string option" where
  "error_code (FileNotFoundError m) = Some ''FILE_NOT_FOUND''"
| "error_code (ValidationError m) = Some ''VALIDATION_ERROR''"
| "error_code (NetworkError m) = Some ''NETWORK_ERROR''"
| "error_code (ApiError m) = Some ''API_ERROR''"
| "error_code (ConfigurationError m) = Some ''CONFIGURATION_ERROR''"
| "error_code e = None"

section \<open>The library calls the service makes\<close>

subsection \<open>\<open>urllib.parse.urlparse\<close>\<close>

text \<open>
  \<open>is_url\<close> reads the \<open>scheme\<close> and \<open>netloc\<close> of \<open>urlparse(source)\<close>. The model
  follows \<open>urlsplit\<close> of CPython 3.11 for these two fields: leading C0 control
  characters and spaces are stripped, tab, carriage return and line feed are removed,
  the scheme is the text before the first colon when it starts with an ASCII letter and
  consists of scheme characters, and the netloc is what follows \<open>//\<close> up to the first of
  \<open>/\<close>, \<open>?\<close> and \<open>#\<close>. \<open>urlsplit\<close> raises \<open>ValueError\<close> on unbalanced square
  brackets and on a bracketed host that is no IPv6 or IPvFuture literal; that last
  check (\<open>ipaddress.ip_address\<close>) is a parameter of the model, giving the exception it
  raises, if any. The NFKC check of the netloc cannot fail for code points below 256.
\<close>

record parse_result =
  scheme :: string
  netloc :: string

definition scheme_chars :: string where
  "scheme_chars =
     ''abcdefghijklmnopqrstuvwxyzABCDEFGHIJKLMNOPQRSTUVWXYZ0123456789+-.''"

definition is_ascii_alpha :: "char \<Rightarrow> bool" where
  "is_ascii_alpha c =
     (let n = (of_char c :: nat) in (65 \<le> n \<and> n \<le> 90) \<or> (97 \<le> n \<and> n \<le> 122))"

definition lstrip_c0_space :: "string \<Rightarrow> string" where
  "lstrip_c0_space s = dropWhile (\<lambda>c. (of_char c :: nat) \<le> 32) s"

definition remove_unsafe :: "string \<Rightarrow> string" where
  "remove_unsafe s =
     filter (\<lambda>c. c \<noteq> CHR 0x09 \<and> c \<noteq> CHR 0x0D \<and> c \<noteq> CHR 0x0A) s"

text \<open>The scheme and the rest of the URL after it; an empty scheme when there is none.\<close>

definition split_scheme :: "string \<Rightarrow> string \<times> string" where
  "split_scheme url =
     (case find_char CHR '':'' url of
        None \<Rightarrow> ([], url)
      | Some i \<Rightarrow>
          if 0 < i \<and> is_ascii_alpha (hd url) \<and> (\<forall>c \<in> set (take i url). c \<in> set scheme_chars)
          then (lower (take i url), drop (Suc i) url)
          else ([], url))"

definition splitnetloc :: "string \<Rightarrow> string" where
  "splitnetloc url =
     takeWhile (\<lambda>c. c \<noteq> CHR ''/'' \<and> c \<noteq> CHR ''?'' \<and> c \<noteq> CHR ''#'') (drop 2 url)"

text \<open>\<open>netloc.partition('[')[2].partition(']')[0]\<close>.\<close>

definition bracketed_host :: "string \<Rightarrow> string" where
  "bracketed_host nl =
     takeWhile (\<lambda>c. c \<noteq> CHR '']'') (drop 1 (dropWhile (\<lambda>c. c \<noteq> CHR ''['') nl))"

definition urlparse :: "(string \<Rightarrow> exn option) \<Rightarrow> string \<Rightarrow> exn + parse_result" where
  "urlparse check_bracketed_host source =
     (let url = remove_unsafe (lstrip_c0_space source);
          (sch, rest) = split_scheme url
      in if take 2 rest = ''//''
         then
           (let nl = splitnetloc rest;
                has_open = (CHR ''['' \<in> set nl);
                has_close = (CHR '']'' \<in> set nl)
            in if has_open \<noteq> has_close then Inl (ValueError ''Invalid IPv6 URL'')
               else if has_open \<and> has_close
               then (case check_bracketed_host (bracketed_host nl) of
                       Some e \<Rightarrow> Inl e
                     | None \<Rightarrow> Inr \<lparr>scheme = sch, netloc = nl\<rparr>)
               else Inr \<lparr>scheme = sch, netloc = nl\<rparr>)
         else Inr \<lparr>scheme = sch, netloc = []\<rparr>)"

subsection \<open>\<open>pathlib\<close>\<close>

text \<open>
  \<open>Path(p).suffix\<close> on a POSIX system: the path is cut at \<open>/\<close>, empty components and
  \<open>.\<close> are dropped, the name is the last component left (empty when there is none),
  and the suffix starts at the last dot of the name unless that dot is its first or its
  last character.
\<close>

definition path_name :: "string \<Rightarrow> string" where
  "path_name p =
     (let parts = filter (\<lambda>x. x \<noteq> [] \<and> x \<noteq> ''.'') (split_on CHR ''/'' p)
      in if parts = [] then [] else last parts)"

definition suffix :: "string \<Rightarrow> string" where
  "suffix p =
     (let name = path_name p
      in case rfind_char CHR ''.'' name of
           None \<Rightarrow> []
         | Some i \<Rightarrow> if 0 < i \<and> Suc i < length name then drop i name else [])"

subsection \<open>Formatting numbers\<close>

text \<open>\<open>str(n)\<close> for an integer and the format \<open>{x:.2f}\<close>, which rounds half to even.\<close>

definition digit_char :: "nat \<Rightarrow> char" where
  "digit_char d = char_of (48 + d)"

fun str_nat :: "nat \<Rightarrow> string" where
  "str_nat n = (if n < 10 then [digit_char n] else str_nat (n div 10) @ [digit_char (n mod 10)])"

declare str_nat.simps [simp del]

definition str_int :: "int \<Rightarrow> string" where
  "str_int i = (if i < 0 then CHR ''-'' # str_nat (nat (- i)) else str_nat (nat i))"

definition round_half_even :: "rat \<Rightarrow> int" where
  "round_half_even q =
     (let f = \<lfloor>q\<rfloor>; d = q - of_int f
      in if d < 1 / 2 then f else if 1 / 2 < d then f + 1 else if even f then f else f + 1)"

definition format_2f :: "rat \<Rightarrow> string" where
  "format_2f x =
     (let n = nat (round_half_even (\<bar>x\<bar> * 100))
      in (if x < 0 then ''-'' else [])
         @ str_nat (n div 100) @ ''.'' @ [digit_char (n div 10 mod 10), digit_char (n mod 10)])"

subsection \<open>The file system and the network\<close>

text \<open>
  The service touches the world through \<open>Path.exists\<close>, \<open>Path.is_file\<close>,
  \<open>Path.stat\<close>, \<open>aiofiles.open(..).read()\<close> and \<open>httpx.AsyncClient.head\<close>. The world
  is a parameter of the model: \<open>fs\<close> gives what \<open>stat\<close> finds at a path (nothing when
  the path does not exist), \<open>http_head\<close> gives the outcome of a HEAD request within
  its 10 second timeout, which is a response or the exception the client raises. The
  world is one snapshot for the length of a call, in which \<open>stat\<close> succeeds on every
  path that exists, and every call appends what it did to a trace, so that "no network
  access" is a statement about the trace.
\<close>

record node =
  is_file :: bool
  st_size :: nat
  contents :: "bytes option"  \<comment> \<open>what reading the file returns; \<open>None\<close> when it fails\<close>

record response =
  status_code :: nat
  content_type_header :: "string option"  \<comment> \<open>\<open>response.headers.get('content-type')\<close>\<close>
  status_error :: string  \<comment> \<open>the text of the error \<open>raise_for_status\<close> raises for it\<close>

record env =
  fs :: "string \<Rightarrow> node option"
  http_head :: "string \<Rightarrow> exn + response"
  check_bracketed_host :: "string \<Rightarrow> exn option"

datatype event = Stat string | ReadFile string | Head string

type_synonym 'a io = "event list \<times> (exn + 'a)"

definition io_return :: "'a \<Rightarrow> 'a io" where
  "io_return x = ([], Inr x)"

definition io_raise :: "exn \<Rightarrow> 'a io" where
  "io_raise e = ([], Inl e)"

definition io_bind :: "'a io \<Rightarrow> ('a \<Rightarrow> 'b io) \<Rightarrow> 'b io" where
  "io_bind m f =
     (case m of
        (t, Inl e) \<Rightarrow> (t, Inl e)
      | (t, Inr x) \<Rightarrow> (case f x of (t', r) \<Rightarrow> (t @ t', r)))"

text \<open>\<open>try: m except Exception as e: h e\<close>.\<close>

definition io_try :: "'a io \<Rightarrow> (exn \<Rightarrow> 'a io) \<Rightarrow> 'a io" where
  "io_try m h =
     (case m of
        (t, Inl e) \<Rightarrow> (case h e of (t', r) \<Rightarrow> (t @ t', r))
      | (t, Inr x) \<Rightarrow> (t, Inr x))"

definition path_exists :: "env \<Rightarrow> string \<Rightarrow> bool io" where
  "path_exists w p = ([Stat p], Inr (fs w p \<noteq> None))"

definition path_is_file :: "env \<Rightarrow> string \<Rightarrow> bool io" where
  "path_is_file w p =
     ([Stat p], Inr (case fs w p of None \<Rightarrow> False | Some n \<Rightarrow> is_file n))"

definition path_stat :: "env \<Rightarrow> string \<Rightarrow> node io" where
  "path_stat w p =
     ([Stat p],
      case fs w p of
        None \<Rightarrow> Inl (OSError (''[Errno 2] No such file or directory: '' @ p))
      | Some n \<Rightarrow> Inr n)"

definition read_file :: "env \<Rightarrow> string \<Rightarrow> bytes io" where
  "read_file w p =
     ([ReadFile p],
      case fs w p of
        None \<Rightarrow> Inl (OSError (''[Errno 2] No such file or directory: '' @ p))
      | Some n \<Rightarrow>
          (case contents n of
             None \<Rightarrow> Inl (OSError (''cannot read: '' @ p))
           | Some b \<Rightarrow> Inr b))"

definition client_head :: "env \<Rightarrow> string \<Rightarrow> response io" where
  "client_head w url = ([Head url], http_head w url)"

text \<open>
  \<open>response.raise_for_status()\<close>: httpx raises \<open>HTTPStatusError\<close>, a subclass of
  \<open>httpx.HTTPError\<close>, unless the status is a success (2xx).
\<close>

definition raise_for_status :: "response \<Rightarrow> unit io" where
  "raise_for_status r =
     (if 200 \<le> status_code r \<and> status_code r < 300 then io_return ()
      else io_raise (HTTPError (status_error r)))"

subsection \<open>\<open>base64\<close>\<close>

text \<open>
  \<open>base64.b64encode\<close> is the standard encoding of RFC 4648: three bytes make a
  24-bit group that is written as four characters of the alphabet, and a last group of
  one or two bytes is padded with \<open>=\<close>. \<open>b64decode\<close> is its inverse on well-formed
  input (\<open>None\<close> where a character is outside the alphabet or the length is no
  multiple of four).
\<close>

definition b64chars :: string where
  "b64chars = ''ABCDEFGHIJKLMNOPQRSTUVWXYZabcdefghijklmnopqrstuvwxyz0123456789+/''"

fun b64encode :: "bytes \<Rightarrow> string" where
  "b64encode [] = []"
| "b64encode [a] =
     (let n = unat a * 16
      in [b64chars ! (n div 64), b64chars ! (n mod 64), CHR ''='', CHR ''=''])"
| "b64encode [a, b] =
     (let n = (unat a * 256 + unat b) * 4
      in [b64chars ! (n div 4096), b64chars ! (n div 64 mod 64), b64chars ! (n mod 64),
          CHR ''=''])"
| "b64encode (a # b # c # rest) =
     (let n = unat a * 65536 + unat b * 256 + unat c
      in [b64chars ! (n div 262144), b64chars ! (n div 4096 mod 64),
          b64chars ! (n div 64 mod 64), b64chars ! (n mod 64)] @ b64encode rest)"

fun index_of :: "'a list \<Rightarrow> 'a \<Rightarrow> nat option" where
  "index_of [] y = None"
| "index_of (x # xs) y = (if x = y then Some 0 else map_option Suc (index_of xs y))"

definition b64index :: "char \<Rightarrow> nat option" where
  "b64index c = index_of b64chars c"

fun b64decode :: "string \<Rightarrow> bytes option" where
  "b64decode [] = Some []"
| "b64decode (c1 # c2 # c3 # c4 # rest) =
     (if rest = [] \<and> c3 = CHR ''='' \<and> c4 = CHR ''=''
      then (case (b64index c1, b64index c2) of
              (Some i1, Some i2) \<Rightarrow> Some [of_nat ((i1 * 64 + i2) div 16)]
            | _ \<Rightarrow> None)
      else if rest = [] \<and> c4 = CHR ''=''
      then (case (b64index c1, b64index c2, b64index c3) of
              (Some i1, Some i2, Some i3) \<Rightarrow>
                (let m = i1 * 4096 + i2 * 64 + i3
                 in Some [of_nat (m div 1024), of_nat (m div 4 mod 256)])
            | _ \<Rightarrow> None)
      else (case (b64index c1, b64index c2, b64index c3, b64index c4) of
              (Some i1, Some i2, Some i3, Some i4) \<Rightarrow>
                (let m = i1 * 262144 + i2 * 4096 + i3 * 64 + i4
                 in map_option
                      (\<lambda>bs. of_nat (m div 65536) # of_nat (m div 256 mod 256)
                              # of_nat (m mod 256) # bs)
                      (b64decode rest))
            | _ \<Rightarrow> None))"
| "b64decode s = None"

section \<open>\<open>Settings\<close>\<close>

text \<open>
  The fields of \<open>Settings\<close> that \<open>__post_init__\<close> and \<open>FileService\<close> read or write.
  \<open>platform_mode\<close> is a \<open>Literal["ZAI", "ZHIPU", "AUTO"]\<close>; \<open>fastmcp_settings\<close> is a
  dict, kept as an association list in insertion order.
\<close>

datatype platform = ZAI | ZHIPU | AUTO

record settings =
  api_key :: "string option"
  base_url :: string
  platform_mode :: platform
  log_level :: string
  timeout_seconds :: int
  rate_limit :: int
  max_image_size_mb :: int
  max_video_size_mb :: int
  fastmcp_settings :: "(string \<times> pyval) list"

definition py_opt_str :: "string option \<Rightarrow> pyval" where
  "py_opt_str v = (case v of None \<Rightarrow> PyNone | Some s \<Rightarrow> PyStr s)"






section \<open>\<open>FileService\<close>\<close>

text \<open>
  \<open>__init__\<close> stores the settings and the two sets of supported extensions. The sets
  are kept as lists in the order of the source's literals; membership does not depend
  on the order (the order in which Python iterates a set of strings, which the text of
  one error message shows, is not fixed).
\<close>

record file_service =
  settings :: settings
  supported_image_formats :: "string list"
  supported_video_formats :: "string list"

definition file_service_init :: "settings \<Rightarrow> file_service" where
  "file_service_init st =
     \<lparr>settings = st,
      supported_image_formats = [''.png'', ''.jpg'', ''.jpeg''],
      supported_video_formats = [''.mp4'', ''.mov'', ''.avi'', ''.webm'', ''.m4v'']\<rparr>"

text \<open>
  \<^verbatim>\<open>
  def is_url(self, source: str) -> bool:
      try:
          result = urlparse(source)
          return result.scheme in ('http', 'https') and result.netloc
      except Exception:
          return False
  \<close>
  \<open>a and b\<close> evaluates to \<open>a\<close> when \<open>a\<close> is false and to \<open>b\<close> otherwise, so the
  method returns \<open>False\<close> or the netloc string; its callers only test the truth value.
  \<open>is_url_with\<close> is the method over any parser outcome, so that what it is shown to
  do does not depend on the release of \<open>urllib\<close>; \<open>is_url\<close> is the method with the
  parser modelled above.
\<close>

definition is_url_with :: "(string \<Rightarrow> exn + parse_result) \<Rightarrow> string \<Rightarrow> exn + pyval" where
  "is_url_with parse source =
     (case parse source of
        Inl e \<Rightarrow> Inr (PyBool False)
      | Inr result \<Rightarrow>
          Inr (if scheme result \<in> {''http'', ''https''}
               then PyStr (netloc result) else PyBool False))"

definition is_url :: "env \<Rightarrow> string \<Rightarrow> pyval io" where
  "is_url w source = ([], is_url_with (urlparse (check_bracketed_host w)) source)"

definition validate_image_file :: "file_service \<Rightarrow> env \<Rightarrow> string \<Rightarrow> unit io" where
  "validate_image_file self w file_path =
     io_bind (path_exists w file_path) (\<lambda>ex.
       if \<not> ex then io_raise (FileNotFoundError (''Image file not found: '' @ file_path))
       else io_bind (path_is_file w file_path) (\<lambda>isf.
         if \<not> isf then io_raise (ValidationError (''Path is not a file: '' @ file_path))
         else io_bind (path_stat w file_path) (\<lambda>st.
           let size_mb = (of_nat (st_size st) / (1024 * 1024) :: rat)
           in if size_mb > of_int (max_image_size_mb (settings self))
              then io_raise (ValidationError
                     (''Image file too large: '' @ format_2f size_mb @ ''MB. ''
                      @ ''Maximum allowed: '' @ str_int (max_image_size_mb (settings self))
                      @ ''MB''))
              else if lower (suffix file_path) \<notin> set (supported_image_formats self)
              then io_raise (ValidationError
                     (''Unsupported image format: '' @ suffix file_path @ ''. ''
                      @ ''Supported formats: '' @ join '', '' (supported_image_formats self)))
              else io_return ())))"

definition validate_video_file :: "file_service \<Rightarrow> env \<Rightarrow> string \<Rightarrow> unit io" where
  "validate_video_file self w file_path =
     io_bind (path_exists w file_path) (\<lambda>ex.
       if \<not> ex then io_raise (FileNotFoundError (''Video file not found: '' @ file_path))
       else io_bind (path_is_file w file_path) (\<lambda>isf.
         if \<not> isf then io_raise (ValidationError (''Path is not a file: '' @ file_path))
         else io_bind (path_stat w file_path) (\<lambda>st.
           let size_mb = (of_nat (st_size st) / (1024 * 1024) :: rat)
           in if size_mb > of_int (max_video_size_mb (settings self))
              then io_raise (ValidationError
                     (''Video file too large: '' @ format_2f size_mb @ ''MB. ''
                      @ ''Maximum allowed: '' @ str_int (max_video_size_mb (settings self))
                      @ ''MB''))
              else if lower (suffix file_path) \<notin> set (supported_video_formats self)
              then io_raise (ValidationError
                     (''Unsupported video format: '' @ suffix file_path @ ''. ''
                      @ ''Supported formats: '' @ join '', '' (supported_video_formats self)))
              else io_return ())))"

text \<open>
  \<^verbatim>\<open>
  try:
      async with httpx.AsyncClient(timeout=10.0) as client:
          response = await client.head(url)
          response.raise_for_status()
          content_type = response.headers.get('content-type', '').lower()
          if not content_type.startswith('image/'):
              raise ValidationError(f"URL does not point to an image: {content_type}")
  except httpx.HTTPError as e:
      raise NetworkError(f"Cannot access image URL: {e}")
  except Exception as e:
      raise NetworkError(f"Network error validating image URL: {e}")
  \<close>
  The \<open>raise ValidationError\<close> stands inside the \<open>try\<close>, so the handlers see it too.
\<close>

definition validate_image_url :: "env \<Rightarrow> string \<Rightarrow> unit io" where
  "validate_image_url w url =
     io_try
       (io_bind (client_head w url) (\<lambda>response.
          io_bind (raise_for_status response) (\<lambda>_.
            let content_type =
                  lower (case content_type_header response of None \<Rightarrow> [] | Some v \<Rightarrow> v)
            in if \<not> startswith content_type ''image/''
               then io_raise (ValidationError
                      (''URL does not point to an image: '' @ content_type))
               else io_return ())))
       (\<lambda>e. case e of
               HTTPError m \<Rightarrow> io_raise (NetworkError (''Cannot access image URL: '' @ str_of e))
             | _ \<Rightarrow> io_raise (NetworkError
                      (''Network error validating image URL: '' @ str_of e)))"

definition validate_video_url :: "env \<Rightarrow> string \<Rightarrow> unit io" where
  "validate_video_url w url =
     io_try
       (io_bind (client_head w url) (\<lambda>response.
          io_bind (raise_for_status response) (\<lambda>_.
            let content_type =
                  lower (case content_type_header response of None \<Rightarrow> [] | Some v \<Rightarrow> v)
            in if \<not> startswith content_type ''video/''
               then io_raise (ValidationError
                      (''URL does not point to a video: '' @ content_type))
               else io_return ())))
       (\<lambda>e. case e of
               HTTPError m \<Rightarrow> io_raise (NetworkError (''Cannot access video URL: '' @ str_of e))
             | _ \<Rightarrow> io_raise (NetworkError
                      (''Network error validating video URL: '' @ str_of e)))"

definition validate_image_source :: "file_service \<Rightarrow> env \<Rightarrow> string \<Rightarrow> unit io" where
  "validate_image_source self w image_source =
     io_bind (is_url w image_source) (\<lambda>u.
       if truthy u then validate_image_url w image_source
       else validate_image_file self w image_source)"

definition validate_video_source :: "file_service \<Rightarrow> env \<Rightarrow> string \<Rightarrow> unit io" where
  "validate_video_source self w video_source =
     io_bind (is_url w video_source) (\<lambda>u.
       if truthy u then validate_video_url w video_source
       else validate_video_file self w video_source)"

text \<open>
  \<open>_get_mime_type\<close>: a lookup of the case-folded extension in one of two tables, with
  \<open>image/png\<close> or \<open>video/mp4\<close> for an extension the table does not have.
\<close>

definition get_mime_type :: "string \<Rightarrow> bool \<Rightarrow> string" where
  "get_mime_type extension is_video =
     (let extension = lower extension;
          mime_types =
            (if is_video
             then [(''.mp4'', ''video/mp4''), (''.avi'', ''video/x-msvideo''),
                   (''.mov'', ''video/quicktime''), (''.webm'', ''video/webm''),
                   (''.m4v'', ''video/x-m4v'')]
             else [(''.png'', ''image/png''), (''.jpg'', ''image/jpeg''),
                   (''.jpeg'', ''image/jpeg'')])
      in case map_of mime_types extension of
           Some m \<Rightarrow> m
         | None \<Rightarrow> if \<not> is_video then ''image/png'' else ''video/mp4'')"

definition encode_image_to_base64 :: "file_service \<Rightarrow> env \<Rightarrow> string \<Rightarrow> string io" where
  "encode_image_to_base64 self w image_source =
     io_bind (is_url w image_source) (\<lambda>u.
       if truthy u then io_return image_source
       else io_bind (validate_image_file self w image_source) (\<lambda>_.
         io_bind (read_file w image_source) (\<lambda>image_data.
           let mime_type = get_mime_type (suffix image_source) False;
               base64_data = b64encode image_data
           in io_return (''data:'' @ mime_type @ '';base64,'' @ base64_data))))"

definition encode_video_to_base64 :: "file_service \<Rightarrow> env \<Rightarrow> string \<Rightarrow> string io" where
  "encode_video_to_base64 self w video_source =
     io_bind (is_url w video_source) (\<lambda>u.
       if truthy u then io_return video_source
       else io_bind (validate_video_file self w video_source) (\<lambda>_.
         io_bind (read_file w video_source) (\<lambda>video_data.
           let mime_type = get_mime_type (suffix video_source) True;
               base64_data = b64encode video_data
           in io_return (''data:'' @ mime_type @ '';base64,'' @ base64_data))))"

text \<open>
  \<open>get_file_info\<close> returns a dict, kept as an association list in insertion order.
  For a URL the whole request stands in a \<open>try\<close> whose handler catches \<open>Exception\<close>
  and returns; for a local path there is no handler.
\<close>

definition get_file_info :: "file_service \<Rightarrow> env \<Rightarrow> string \<Rightarrow> (string \<times> pyval) list io" where
  "get_file_info self w file_source =
     io_bind (is_url w file_source) (\<lambda>u.
       if truthy u
       then io_try
              (io_bind (client_head w file_source) (\<lambda>response.
                 io_bind (raise_for_status response) (\<lambda>_.
                   io_return
                     [(''source'', PyStr file_source),
                      (''type'', PyStr ''url''),
                      (''size'', PyNone),
                      (''content_type'', py_opt_str (content_type_header response)),
                      (''accessible'', PyBool True)])))
              (\<lambda>e. io_return
                     [(''source'', PyStr file_source),
                      (''type'', PyStr ''url''),
                      (''size'', PyNone),
                      (''content_type'', PyNone),
                      (''accessible'', PyBool False),
                      (''error'', PyStr (str_of e))])
       else io_bind (path_exists w file_source) (\<lambda>ex.
              if \<not> ex
              then io_return
                     [(''source'', PyStr file_source),
                      (''type'', PyStr ''file''),
                      (''size'', PyNone),
                      (''content_type'', PyNone),
                      (''accessible'', PyBool False),
                      (''error'', PyStr ''File not found'')]
              else io_bind (path_stat w file_source) (\<lambda>stat.
                     let mime_type =
                           get_mime_type (suffix file_source)
                             (suffix file_source \<in> set (supported_video_formats self))
                     in io_return
                          [(''source'', PyStr file_source),
                           (''type'', PyStr ''file''),
                           (''size'', PyInt (int (st_size stat))),
                           (''size_mb'', PyFloat (of_nat (st_size stat) / (1024 * 1024))),
                           (''content_type'', PyStr mime_type),
                           (''accessible'', PyBool True),
                           (''extension'', PyStr (suffix file_source))])))"

section \<open>Vocabulary of the properties\<close>

text \<open>A source is a URL when \<open>is_url\<close> returns a value that tests true.\<close>

definition url_source :: "env \<Rightarrow> string \<Rightarrow> bool" where
  "url_source w source = (case snd (is_url w source) of Inl e \<Rightarrow> False | Inr v \<Rightarrow> truthy v)"


definition validation_error_with :: "string \<Rightarrow> exn + 'a \<Rightarrow> bool" where
  "validation_error_with p r =
     (case r of Inl (ValidationError m) \<Rightarrow> startswith m p | _ \<Rightarrow> False)"

definition network_error_with :: "string \<Rightarrow> exn + 'a \<Rightarrow> bool" where
  "network_error_with p r =
     (case r of Inl (NetworkError m) \<Rightarrow> startswith m p | _ \<Rightarrow> False)"


text \<open>The size test of the two file validators, on the file's size in bytes.\<close>

definition exceeds_mb :: "nat \<Rightarrow> int \<Rightarrow> bool" where
  "exceeds_mb size_bytes limit_mb = ((of_nat size_bytes / (1024 * 1024) :: rat) > of_int limit_mb)"

subsection \<open>A concrete world for the examples\<close>

definition example_settings :: settings where
  "example_settings =
     \<lparr>api_key = Some ''sk-GLM-0123'',
      base_url = ''http://localhost:9000/'',
      platform_mode = AUTO,
      log_level = ''INFO'',
      timeout_seconds = 300,
      rate_limit = 50,
      max_image_size_mb = 5,
      max_video_size_mb = 8,
      fastmcp_settings = []\<rparr>"

definition example_service :: file_service where
  "example_service = file_service_init example_settings"

definition example_fs :: "string \<Rightarrow> node option" where
  "example_fs p =
     (if p = ''/data/a.png''
        then Some \<lparr>is_file = True, st_size = 4, contents = Some [0x89, 0x50, 0x4E, 0x47]\<rparr>
      else if p = ''/data/full.png''
        then Some \<lparr>is_file = True, st_size = 5242880, contents = None\<rparr>
      else if p = ''/data/big.png''
        then Some \<lparr>is_file = True, st_size = 5242881, contents = None\<rparr>
      else if p = ''/data/notes.txt''
        then Some \<lparr>is_file = True, st_size = 10, contents = Some []\<rparr>
      else if p = ''/data/clip.mp4''
        then Some \<lparr>is_file = True, st_size = 8388608, contents = None\<rparr>
      else if p = ''/data/long.mp4''
        then Some \<lparr>is_file = True, st_size = 8388609, contents = None\<rparr>
      else if p = ''/data/movie.MP4''
        then Some \<lparr>is_file = True, st_size = 1000, contents = None\<rparr>
      else if p = ''/data''
        then Some \<lparr>is_file = False, st_size = 4096, contents = None\<rparr>
      else None)"

definition example_http :: "string \<Rightarrow> exn + response" where
  "example_http url =
     (if url = ''https://example.com/a.png''
        then Inr \<lparr>status_code = 200, content_type_header = Some ''image/png'',
                  status_error = []\<rparr>
      else if url = ''https://example.com/page.html''
        then Inr \<lparr>status_code = 200, content_type_header = Some ''text/html'',
                  status_error = []\<rparr>
      else if url = ''https://example.com/gone.png''
        then Inr \<lparr>status_code = 404, content_type_header = Some ''text/html'',
                  status_error = ''404 Not Found''\<rparr>
      else Inl (HTTPError ''All connection attempts failed''))"

definition example_env :: env where
  "example_env =
     \<lparr>fs = example_fs, http_head = example_http,
      check_bracketed_host = (\<lambda>h. Some (ValueError ''not an IPv6 address''))\<rparr>"

section \<open>Properties of \<open>is_url\<close>\<close>

lemmas urlparse_eval =
  urlparse_def split_scheme_def lstrip_c0_space_def remove_unsafe_def scheme_chars_def
  is_ascii_alpha_def lower_def lower_char_def splitnetloc_def Let_def

lemmas io_defs = io_bind_def io_return_def io_raise_def io_try_def



lemma is_url_shape: "\<exists>v. is_url w source = ([], Inr v)"
  by (simp add: is_url_def is_url_with_def split: sum.split)

lemma example_url:
  "is_url w ''https://example.com/a.png'' = ([], Inr (PyStr ''example.com''))"
  by (simp add: is_url_def is_url_with_def urlparse_eval)


section \<open>Encoding a URL source\<close>

text \<open>
  C4. When \<open>is_url\<close> holds of the source, \<open>encode_image_to_base64\<close> and
  \<open>encode_video_to_base64\<close> return the source itself, and their trace is empty: no
  \<open>stat\<close>, no read, no HEAD request.
\<close>

theorem encode_url_identity:
  assumes "url_source w source"
  shows "encode_image_to_base64 self w source = ([], Inr source)
       \<and> encode_video_to_base64 self w source = ([], Inr source)"
proof -
  obtain v where v: "is_url w source = ([], Inr v)"
    using is_url_shape by blast
  with assms have "truthy v" by (simp add: url_source_def)
  with v show ?thesis
    by (simp add: encode_image_to_base64_def encode_video_to_base64_def io_defs)
qed

theorem encode_url_identity_witness:
  "url_source example_env ''https://example.com/a.png''
   \<and> encode_image_to_base64 example_service example_env ''https://example.com/a.png''
       = ([], Inr ''https://example.com/a.png'')
   \<and> encode_video_to_base64 example_service example_env ''https://example.com/a.png''
       = ([], Inr ''https://example.com/a.png'')"
proof -
  have u: "url_source example_env ''https://example.com/a.png''"
    by (simp add: url_source_def example_url)
  from encode_url_identity [OF u, of example_service] u show ?thesis by simp
qed

section \<open>Properties of \<open>Settings\<close>\<close>













section \<open>Validating a local file\<close>

lemmas lower_eval = lower_def lower_char_def char_of_def bit_0

lemma url_source_is_url:
  "url_source w source \<Longrightarrow> \<exists>v. is_url w source = ([], Inr v) \<and> truthy v"
  using is_url_shape [of w source] by (auto simp: url_source_def)

lemma not_url_source_is_url:
  "\<not> url_source w source \<Longrightarrow> \<exists>v. is_url w source = ([], Inr v) \<and> \<not> truthy v"
  using is_url_shape [of w source] by (auto simp: url_source_def)

lemma validate_image_source_local:
  "\<not> url_source w src \<Longrightarrow> validate_image_source self w src = validate_image_file self w src"
  by (auto dest!: not_url_source_is_url simp: validate_image_source_def io_defs split: prod.split)

lemma validate_video_source_local:
  "\<not> url_source w src \<Longrightarrow> validate_video_source self w src = validate_video_file self w src"
  by (auto dest!: not_url_source_is_url simp: validate_video_source_def io_defs split: prod.split)

lemma validate_image_source_url:
  "url_source w src \<Longrightarrow> validate_image_source self w src = validate_image_url w src"
  by (auto dest!: url_source_is_url simp: validate_image_source_def io_defs split: prod.split)

lemma validate_video_source_url:
  "url_source w src \<Longrightarrow> validate_video_source self w src = validate_video_url w src"
  by (auto dest!: url_source_is_url simp: validate_video_source_def io_defs split: prod.split)

lemmas fs_ops = path_exists_def path_is_file_def path_stat_def read_file_def



lemma validate_image_file_regular:
  "fs w p = Some n \<Longrightarrow> is_file n \<Longrightarrow>
   validate_image_file self w p =
     ([Stat p, Stat p, Stat p],
      if exceeds_mb (st_size n) (max_image_size_mb (settings self))
      then Inl (ValidationError
             (''Image file too large: '' @ format_2f (of_nat (st_size n) / (1024 * 1024)) @ ''MB. ''
              @ ''Maximum allowed: '' @ str_int (max_image_size_mb (settings self)) @ ''MB''))
      else if lower (suffix p) \<notin> set (supported_image_formats self)
      then Inl (ValidationError
             (''Unsupported image format: '' @ suffix p @ ''. ''
              @ ''Supported formats: '' @ join '', '' (supported_image_formats self)))
      else Inr ())"
  by (simp add: validate_image_file_def io_defs fs_ops exceeds_mb_def Let_def)



lemma validate_video_file_regular:
  "fs w p = Some n \<Longrightarrow> is_file n \<Longrightarrow>
   validate_video_file self w p =
     ([Stat p, Stat p, Stat p],
      if exceeds_mb (st_size n) (max_video_size_mb (settings self))
      then Inl (ValidationError
             (''Video file too large: '' @ format_2f (of_nat (st_size n) / (1024 * 1024)) @ ''MB. ''
              @ ''Maximum allowed: '' @ str_int (max_video_size_mb (settings self)) @ ''MB''))
      else if lower (suffix p) \<notin> set (supported_video_formats self)
      then Inl (ValidationError
             (''Unsupported video format: '' @ suffix p @ ''. ''
              @ ''Supported formats: '' @ join '', '' (supported_video_formats self)))
      else Inr ())"
  by (simp add: validate_video_file_def io_defs fs_ops exceeds_mb_def Let_def)


lemma init_simps:
  "settings (file_service_init st) = st"
  "supported_image_formats (file_service_init st) = [''.png'', ''.jpg'', ''.jpeg'']"
  "supported_video_formats (file_service_init st) = [''.mp4'', ''.mov'', ''.avi'', ''.webm'', ''.m4v'']"
  by (simp_all add: file_service_init_def)


lemmas path_eval = suffix_def path_name_def Let_def

lemma not_url_examples:
  "\<not> url_source w ''/nope.png''"
  "\<not> url_source w ''/data''"
  "\<not> url_source w ''/data/big.png''"
  "\<not> url_source w ''/data/notes.txt''"
  "\<not> url_source w ''/data/a.png''"
  "\<not> url_source w ''/data/full.png''"
  "\<not> url_source w ''/data/clip.mp4''"
  "\<not> url_source w ''/data/movie.MP4''"
  "\<not> url_source w ''/data/long.mp4''"
  by (simp_all add: url_source_def is_url_def is_url_with_def urlparse_eval)

lemma suffix_examples:
  "suffix ''/nope.png'' = ''.png''"
  "suffix ''/data'' = []"
  "suffix ''/data/big.png'' = ''.png''"
  "suffix ''/data/notes.txt'' = ''.txt''"
  "suffix ''/data/a.png'' = ''.png''"
  "suffix ''/data/full.png'' = ''.png''"
  "suffix ''/data/clip.mp4'' = ''.mp4''"
  "suffix ''/data/movie.MP4'' = ''.MP4''"
  "suffix ''/data/long.mp4'' = ''.mp4''"
  by (simp_all add: path_eval)

lemma lower_examples:
  "lower ''.png'' = ''.png''"
  "lower ''.txt'' = ''.txt''"
  "lower ''.mp4'' = ''.mp4''"
  "lower ''.MP4'' = ''.mp4''"
  "lower [] = []"
  by (simp_all add: lower_eval)


section \<open>The size ceiling\<close>

text \<open>The comparison of the quotient with the ceiling is a comparison of integers.\<close>

lemma exceeds_mb_iff: "exceeds_mb sz m \<longleftrightarrow> m * 1048576 < int sz"
proof -
  have "exceeds_mb sz m \<longleftrightarrow> (of_int m :: rat) * 1048576 < of_nat sz"
    by (simp add: exceeds_mb_def field_simps)
  also have "\<dots> \<longleftrightarrow> (of_int (m * 1048576) :: rat) < of_int (int sz)"
    by simp
  also have "\<dots> \<longleftrightarrow> m * 1048576 < int sz"
    by (rule of_int_less_iff)
  finally show ?thesis .
qed

text \<open>
  C10. A regular file whose size is exactly the ceiling times 1 048 576 bytes does not
  exceed the ceiling, the comparison being strict, and so a local source with such a
  file and a supported extension passes validation; one byte more fails (the example
  after the theorem shows both).
\<close>

theorem size_at_ceiling_passes:
  assumes "\<not> url_source w src" and "fs w src = Some n" and "is_file n"
  shows "(int (st_size n) = max_image_size_mb st * 1048576
          \<and> lower (suffix src) \<in> {''.png'', ''.jpg'', ''.jpeg''} \<longrightarrow>
            \<not> exceeds_mb (st_size n) (max_image_size_mb st)
          \<and> snd (validate_image_source (file_service_init st) w src) = Inr ())
       \<and> (int (st_size n) = max_video_size_mb st * 1048576
          \<and> lower (suffix src) \<in> {''.mp4'', ''.mov'', ''.avi'', ''.webm'', ''.m4v''} \<longrightarrow>
            \<not> exceeds_mb (st_size n) (max_video_size_mb st)
          \<and> snd (validate_video_source (file_service_init st) w src) = Inr ())"
  using assms
  by (simp add: validate_image_source_local validate_video_source_local
      validate_image_file_regular validate_video_file_regular exceeds_mb_iff init_simps)

theorem size_at_ceiling_passes_witness:
  "int (st_size (the (example_fs ''/data/full.png''))) = max_image_size_mb example_settings * 1048576
   \<and> snd (validate_image_source example_service example_env ''/data/full.png'') = Inr ()
   \<and> int (st_size (the (example_fs ''/data/clip.mp4''))) = max_video_size_mb example_settings * 1048576
   \<and> snd (validate_video_source example_service example_env ''/data/clip.mp4'') = Inr ()
   \<and> validation_error_with ''Image file too large: ''
        (snd (validate_image_source example_service example_env ''/data/big.png''))"
proof -
  have f: "fs example_env ''/data/full.png''
      = Some \<lparr>is_file = True, st_size = 5242880, contents = None\<rparr>"
    by (simp add: example_env_def example_fs_def)
  have c: "fs example_env ''/data/clip.mp4''
      = Some \<lparr>is_file = True, st_size = 8388608, contents = None\<rparr>"
    by (simp add: example_env_def example_fs_def)
  have b: "validation_error_with ''Image file too large: ''
        (snd (validate_image_source example_service example_env ''/data/big.png''))"
    by (simp add: validate_image_source_local not_url_examples validate_image_file_regular
        example_service_def example_env_def example_fs_def example_settings_def
        exceeds_mb_iff validation_error_with_def startswith_def init_simps)
  show ?thesis
    using size_at_ceiling_passes [OF not_url_examples(6) f, of example_settings]
      size_at_ceiling_passes [OF not_url_examples(7) c, of example_settings] b
    by (simp add: example_service_def example_settings_def example_fs_def
        suffix_examples lower_examples init_simps)
qed

section \<open>\<open>get_file_info\<close>\<close>

lemma get_file_info_local_present:
  "\<not> url_source w src \<Longrightarrow> fs w src = Some n \<Longrightarrow>
   get_file_info self w src =
     ([Stat src, Stat src],
      Inr [(''source'', PyStr src),
           (''type'', PyStr ''file''),
           (''size'', PyInt (int (st_size n))),
           (''size_mb'', PyFloat (of_nat (st_size n) / (1024 * 1024))),
           (''content_type'',
              PyStr (get_mime_type (suffix src) (suffix src \<in> set (supported_video_formats self)))),
           (''accessible'', PyBool True),
           (''extension'', PyStr (suffix src))])"
  by (auto dest!: not_url_source_is_url
      simp: get_file_info_def io_defs fs_ops Let_def)







lemma url_examples:
  "url_source w ''https://example.com/a.png''"
  "url_source w ''https://example.com/page.html''"
  "url_source w ''https://example.com/gone.png''"
  "url_source w ''https://example.com/down.png''"
  by (simp_all add: url_source_def is_url_def is_url_with_def urlparse_eval)


section \<open>The content type \<open>get_file_info\<close> reports\<close>

lemma get_mime_type_image:
  "get_mime_type ext False =
     (if lower ext \<in> {''.jpg'', ''.jpeg''} then ''image/jpeg'' else ''image/png'')"
  by (simp add: get_mime_type_def Let_def)

text \<open>
  C9. For a local path that exists and whose extension, as written, is not one of
  \<open>.mp4 .mov .avi .webm .m4v\<close>, \<open>get_file_info\<close> calls \<open>_get_mime_type\<close>
  with \<open>is_video = False\<close>: the content type comes from the image table, which
  gives \<open>image/jpeg\<close> for \<open>.jpg\<close> and \<open>.jpeg\<close> and \<open>image/png\<close> for \<open>.png\<close>
  and for every extension it does not have, each after case folding. The membership
  test for the video flag does not fold the case, while validation does: the same file
  passes video validation when its folded extension is a video extension. The example
  is \<open>movie.MP4\<close>: reported as \<open>image/png\<close>, accepted as a video.
\<close>

theorem file_info_video_flag_case_sensitive:
  assumes "\<not> url_source w src" and "fs w src = Some n"
    and "suffix src \<notin> {''.mp4'', ''.mov'', ''.avi'', ''.webm'', ''.m4v''}"
  shows "(\<exists>info. snd (get_file_info (file_service_init st) w src) = Inr info
            \<and> map_of info ''content_type''
                = Some (PyStr (get_mime_type (suffix src) False))
            \<and> map_of info ''content_type''
                = Some (PyStr (if lower (suffix src) \<in> {''.jpg'', ''.jpeg''}
                               then ''image/jpeg'' else ''image/png'')))
       \<and> (is_file n \<and> \<not> exceeds_mb (st_size n) (max_video_size_mb st)
            \<and> lower (suffix src) \<in> {''.mp4'', ''.mov'', ''.avi'', ''.webm'', ''.m4v''} \<longrightarrow>
          snd (validate_video_source (file_service_init st) w src) = Inr ())"
  using assms
  by (simp add: get_file_info_local_present get_mime_type_image
      validate_video_source_local validate_video_file_regular init_simps)

theorem file_info_video_flag_case_sensitive_witness:
  "suffix ''/data/movie.MP4'' = ''.MP4''
   \<and> lower (suffix ''/data/movie.MP4'') = ''.mp4''
   \<and> snd (get_file_info example_service example_env ''/data/movie.MP4'')
       = Inr [(''source'', PyStr ''/data/movie.MP4''),
              (''type'', PyStr ''file''),
              (''size'', PyInt 1000),
              (''size_mb'', PyFloat (125 / 131072)),
              (''content_type'', PyStr ''image/png''),
              (''accessible'', PyBool True),
              (''extension'', PyStr ''.MP4'')]
   \<and> snd (validate_video_source example_service example_env ''/data/movie.MP4'') = Inr ()"
proof -
  have f: "fs example_env ''/data/movie.MP4''
      = Some \<lparr>is_file = True, st_size = 1000, contents = None\<rparr>"
    by (simp add: example_env_def example_fs_def)
  have s: "suffix ''/data/movie.MP4'' \<notin> {''.mp4'', ''.mov'', ''.avi'', ''.webm'', ''.m4v''}"
    by (simp add: suffix_examples)
  have i: "snd (get_file_info example_service example_env ''/data/movie.MP4'')
       = Inr [(''source'', PyStr ''/data/movie.MP4''),
              (''type'', PyStr ''file''),
              (''size'', PyInt 1000),
              (''size_mb'', PyFloat (125 / 131072)),
              (''content_type'', PyStr ''image/png''),
              (''accessible'', PyBool True),
              (''extension'', PyStr ''.MP4'')]"
    by (simp add: get_file_info_local_present [OF not_url_examples(8) f]
        example_service_def suffix_examples get_mime_type_image lower_examples init_simps)
  show ?thesis
    using file_info_video_flag_case_sensitive [OF not_url_examples(8) f s, of example_settings] i
    by (simp add: example_service_def example_settings_def suffix_examples lower_examples
        exceeds_mb_iff init_simps)
qed

section \<open>Validating a URL\<close>

lemma validate_image_url_head_raises:
  "http_head w url = Inl e \<Longrightarrow>
   validate_image_url w url =
     ([Head url],
      Inl (NetworkError
            ((case e of HTTPError m \<Rightarrow> ''Cannot access image URL: ''
                      | _ \<Rightarrow> ''Network error validating image URL: '') @ str_of e)))"
  by (cases e) (simp_all add: validate_image_url_def io_defs client_head_def)

lemma validate_image_url_status:
  "http_head w url = Inr r \<Longrightarrow> \<not> (200 \<le> status_code r \<and> status_code r < 300) \<Longrightarrow>
   validate_image_url w url =
     ([Head url], Inl (NetworkError (''Cannot access image URL: '' @ status_error r)))"
  by (auto simp add: validate_image_url_def io_defs client_head_def raise_for_status_def)

lemma validate_image_url_content_type:
  "http_head w url = Inr r \<Longrightarrow> 200 \<le> status_code r \<and> status_code r < 300 \<Longrightarrow>
   validate_image_url w url =
     ([Head url],
      let content_type = lower (case content_type_header r of None \<Rightarrow> [] | Some v \<Rightarrow> v)
      in if startswith content_type ''image/'' then Inr ()
         else Inl (NetworkError
                (''Network error validating image URL: URL does not point to an image: ''
                 @ content_type)))"
  by (auto simp add: validate_image_url_def io_defs client_head_def raise_for_status_def Let_def)

lemma validate_video_url_head_raises:
  "http_head w url = Inl e \<Longrightarrow>
   validate_video_url w url =
     ([Head url],
      Inl (NetworkError
            ((case e of HTTPError m \<Rightarrow> ''Cannot access video URL: ''
                      | _ \<Rightarrow> ''Network error validating video URL: '') @ str_of e)))"
  by (cases e) (simp_all add: validate_video_url_def io_defs client_head_def)

lemma validate_video_url_status:
  "http_head w url = Inr r \<Longrightarrow> \<not> (200 \<le> status_code r \<and> status_code r < 300) \<Longrightarrow>
   validate_video_url w url =
     ([Head url], Inl (NetworkError (''Cannot access video URL: '' @ status_error r)))"
  by (auto simp add: validate_video_url_def io_defs client_head_def raise_for_status_def)

lemma validate_video_url_content_type:
  "http_head w url = Inr r \<Longrightarrow> 200 \<le> status_code r \<and> status_code r < 300 \<Longrightarrow>
   validate_video_url w url =
     ([Head url],
      let content_type = lower (case content_type_header r of None \<Rightarrow> [] | Some v \<Rightarrow> v)
      in if startswith content_type ''video/'' then Inr ()
         else Inl (NetworkError
                (''Network error validating video URL: URL does not point to a video: ''
                 @ content_type)))"
  by (auto simp add: validate_video_url_def io_defs client_head_def raise_for_status_def Let_def)

text \<open>No outcome of the URL validators is a \<open>ValidationError\<close>.\<close>

lemma validate_image_url_outcomes:
  "snd (validate_image_url w url) = Inr () \<or> (\<exists>m. snd (validate_image_url w url) = Inl (NetworkError m))"
proof (cases "http_head w url")
  case (Inl e)
  then show ?thesis by (simp add: validate_image_url_head_raises)
next
  case (Inr r)
  then show ?thesis
    by (cases "200 \<le> status_code r \<and> status_code r < 300")
       (simp_all add: validate_image_url_status validate_image_url_content_type Let_def)
qed

lemma validate_video_url_outcomes:
  "snd (validate_video_url w url) = Inr ()
   \<or> (\<exists>m. snd (validate_video_url w url) = Inl (NetworkError m))"
proof (cases "http_head w url")
  case (Inl e)
  then show ?thesis by (simp add: validate_video_url_head_raises)
next
  case (Inr r)
  then show ?thesis
    by (cases "200 \<le> status_code r \<and> status_code r < 300")
       (simp_all add: validate_video_url_status validate_video_url_content_type Let_def)
qed

text \<open>
  C1, at the input where the code departs from it. A HEAD request that succeeds with
  status 200 and a content type that does not start with \<open>image/\<close> (for the image
  validator) or \<open>video/\<close> (for the video validator) ends in a \<open>NetworkError\<close>:
  the \<open>ValidationError\<close> is raised inside the \<open>try\<close> block and the handler for
  \<open>Exception\<close> wraps it. The trace shows the one HEAD request.
\<close>

theorem url_content_type_mismatch_raises_network_error:
  "validate_image_source example_service example_env ''https://example.com/page.html''
     = ([Head ''https://example.com/page.html''],
        Inl (NetworkError
          ''Network error validating image URL: URL does not point to an image: text/html''))
   \<and> validate_video_source example_service example_env ''https://example.com/a.png''
     = ([Head ''https://example.com/a.png''],
        Inl (NetworkError
          ''Network error validating video URL: URL does not point to a video: image/png''))
   \<and> \<not> validation_error_with []
         (snd (validate_image_source example_service example_env ''https://example.com/page.html''))
   \<and> \<not> validation_error_with []
         (snd (validate_video_source example_service example_env ''https://example.com/a.png''))"
proof -
  have p: "http_head example_env ''https://example.com/page.html''
      = Inr \<lparr>status_code = 200, content_type_header = Some ''text/html'', status_error = []\<rparr>"
    by (simp add: example_env_def example_http_def)
  have a: "http_head example_env ''https://example.com/a.png''
      = Inr \<lparr>status_code = 200, content_type_header = Some ''image/png'', status_error = []\<rparr>"
    by (simp add: example_env_def example_http_def)
  have i: "validate_image_source example_service example_env ''https://example.com/page.html''
     = ([Head ''https://example.com/page.html''],
        Inl (NetworkError
          ''Network error validating image URL: URL does not point to an image: text/html''))"
    by (simp add: validate_image_source_url url_examples
        validate_image_url_content_type [OF p] lower_eval startswith_def)
  have v: "validate_video_source example_service example_env ''https://example.com/a.png''
     = ([Head ''https://example.com/a.png''],
        Inl (NetworkError
          ''Network error validating video URL: URL does not point to a video: image/png''))"
    by (simp add: validate_video_source_url url_examples
        validate_video_url_content_type [OF a] lower_eval startswith_def)
  show ?thesis
    by (simp add: i v validation_error_with_def)
qed

section \<open>Base64 decodes what it encoded\<close>

lemma index_of_nth: "distinct xs \<Longrightarrow> i < length xs \<Longrightarrow> index_of xs (xs ! i) = Some i"
proof (induction xs arbitrary: i)
  case Nil
  then show ?case by simp
next
  case (Cons x xs)
  show ?case
  proof (cases i)
    case 0
    then show ?thesis by simp
  next
    case (Suc j)
    with Cons.prems have j: "j < length xs" and d: "distinct xs" and nx: "x \<notin> set xs"
      by simp_all
    from j nx have "xs ! j \<noteq> x" by (metis nth_mem)
    with Cons.IH [OF d j] Suc show ?thesis by auto
  qed
qed

lemma length_b64chars: "length b64chars = 64"
  by (simp add: b64chars_def)

lemma distinct_b64chars: "distinct b64chars"
  by (simp add: b64chars_def)

lemma b64index_nth: "i < 64 \<Longrightarrow> b64index (b64chars ! i) = Some i"
  unfolding b64index_def
  by (rule index_of_nth [OF distinct_b64chars]) (simp add: length_b64chars)

lemma b64chars_no_pad: "i < 64 \<Longrightarrow> b64chars ! i \<noteq> CHR ''=''"
proof -
  assume "i < 64"
  then have "b64chars ! i \<in> set b64chars"
    by (simp add: length_b64chars)
  moreover have "CHR ''='' \<notin> set b64chars"
    by (simp add: b64chars_def)
  ultimately show ?thesis by metis
qed

text \<open>Decoding one group of alphabet characters, by the number of padding signs.\<close>

lemma decode_quad:
  assumes "i1 < 64" and "i2 < 64" and "i3 < 64" and "i4 < 64"
  shows "b64decode (b64chars ! i1 # b64chars ! i2 # b64chars ! i3 # b64chars ! i4 # rest) =
     map_option
       (\<lambda>bs. of_nat ((i1 * 262144 + i2 * 4096 + i3 * 64 + i4) div 65536)
             # of_nat ((i1 * 262144 + i2 * 4096 + i3 * 64 + i4) div 256 mod 256)
             # of_nat ((i1 * 262144 + i2 * 4096 + i3 * 64 + i4) mod 256) # bs)
       (b64decode rest)"
  using assms by (simp add: b64index_nth b64chars_no_pad Let_def)

lemma decode_pad1:
  assumes "i1 < 64" and "i2 < 64" and "i3 < 64"
  shows "b64decode [b64chars ! i1, b64chars ! i2, b64chars ! i3, CHR ''=''] =
     Some [of_nat ((i1 * 4096 + i2 * 64 + i3) div 1024),
           of_nat ((i1 * 4096 + i2 * 64 + i3) div 4 mod 256)]"
  using assms by (simp add: b64index_nth b64chars_no_pad Let_def)

lemma decode_pad2:
  assumes "i1 < 64" and "i2 < 64"
  shows "b64decode [b64chars ! i1, b64chars ! i2, CHR ''='', CHR ''=''] =
     Some [of_nat ((i1 * 64 + i2) div 16)]"
  using assms by (simp add: b64index_nth)

lemma byte_bound: "unat (a :: 8 word) < 256"
  using unsigned_less [of a, where ?'a = nat] by simp

lemma div_mod_base:
  fixes q r k :: nat
  assumes "r < k"
  shows "(q * k + r) div k = q" and "(q * k + r) mod k = r"
  using assms by simp_all

text \<open>Three bytes are the digits of their group in base 256.\<close>

lemma bytes_split:
  fixes x y z :: nat
  assumes "y < 256" and "z < 256"
  shows "(x * 65536 + y * 256 + z) div 65536 = x"
    and "(x * 65536 + y * 256 + z) div 256 mod 256 = y"
    and "(x * 65536 + y * 256 + z) mod 256 = z"
proof -
  have a: "x * 65536 + y * 256 + z = (x * 256 + y) * 256 + z"
    by simp
  have d: "(x * 65536 + y * 256 + z) div 256 = x * 256 + y"
    by (simp only: a div_mod_base(1) [OF assms(2)])
  show "(x * 65536 + y * 256 + z) mod 256 = z"
    by (simp only: a div_mod_base(2) [OF assms(2)])
  show "(x * 65536 + y * 256 + z) div 256 mod 256 = y"
    by (simp only: d div_mod_base(2) [OF assms(1)])
  have "(x * 65536 + y * 256 + z) div 65536 = (x * 65536 + y * 256 + z) div 256 div 256"
    by (simp add: div_mult2_eq)
  also have "\<dots> = x"
    by (simp only: d div_mod_base(1) [OF assms(1)])
  finally show "(x * 65536 + y * 256 + z) div 65536 = x" .
qed

text \<open>The four sextets are the digits of the group in base 64.\<close>

lemma sextets_join:
  fixes n :: nat
  shows "n div 262144 * 262144 + n div 4096 mod 64 * 4096 + n div 64 mod 64 * 64 + n mod 64 = n"
proof -
  define q1 where "q1 = n div 64"
  define q2 where "q2 = q1 div 64"
  define q3 where "q3 = q2 div 64"
  have d1: "n div 4096 = q2"
    unfolding q2_def q1_def by (simp add: div_mult2_eq)
  have d2: "n div 262144 = q3"
    unfolding q3_def q2_def q1_def by (simp add: div_mult2_eq)
  have e1: "n = q1 * 64 + n mod 64"
    unfolding q1_def by simp
  have e2: "q1 = q2 * 64 + q1 mod 64"
    unfolding q2_def by simp
  have e3: "q2 = q3 * 64 + q2 mod 64"
    unfolding q3_def by simp
  have "q3 * 262144 + q2 mod 64 * 4096 + q1 mod 64 * 64 + n mod 64 = n"
    using e1 e2 e3 by linarith
  then show ?thesis
    unfolding d1 d2 q1_def [symmetric] by simp
qed

lemma sextets_join2:
  fixes n :: nat
  shows "n div 4096 * 4096 + n div 64 mod 64 * 64 + n mod 64 = n"
proof -
  define q1 where "q1 = n div 64"
  define q2 where "q2 = q1 div 64"
  have d1: "n div 4096 = q2"
    unfolding q2_def q1_def by (simp add: div_mult2_eq)
  have e1: "n = q1 * 64 + n mod 64"
    unfolding q1_def by simp
  have e2: "q1 = q2 * 64 + q1 mod 64"
    unfolding q2_def by simp
  have "q2 * 4096 + q1 mod 64 * 64 + n mod 64 = n"
    using e1 e2 by linarith
  then show ?thesis
    unfolding d1 q1_def [symmetric] by simp
qed

lemma sextets_join1:
  fixes n :: nat
  shows "n div 64 * 64 + n mod 64 = n"
  by simp

lemma top_sextet:
  fixes n k :: nat
  assumes "n < 64 * k"
  shows "n div k < 64"
  using assms by (simp add: less_mult_imp_div_less)

lemma roundtrip_one: "b64decode (b64encode [a]) = Some [a]"
proof -
  define n where "n = unat a * 16"
  have b: "unat a < 256" by (rule byte_bound)
  have enc: "b64encode [a] = [b64chars ! (n div 64), b64chars ! (n mod 64), CHR ''='', CHR ''='']"
    by (simp only: b64encode.simps Let_def n_def)
  have s1: "n div 64 < 64"
    by (rule top_sextet) (use b in \<open>simp add: n_def\<close>)
  have s2: "n mod 64 < 64" by simp
  have "b64decode (b64encode [a]) = Some [of_nat ((n div 64 * 64 + n mod 64) div 16)]"
    unfolding enc by (rule decode_pad2 [OF s1 s2])
  also have "(n div 64 * 64 + n mod 64) div 16 = unat a"
    unfolding sextets_join1 by (simp add: n_def)
  finally show ?thesis by simp
qed

lemma roundtrip_two: "b64decode (b64encode [a, b]) = Some [a, b]"
proof -
  define n where "n = (unat a * 256 + unat b) * 4"
  have a: "unat a < 256" and b: "unat b < 256" by (rule byte_bound)+
  have enc: "b64encode [a, b] =
      [b64chars ! (n div 4096), b64chars ! (n div 64 mod 64), b64chars ! (n mod 64), CHR ''='']"
    by (simp only: b64encode.simps Let_def n_def)
  have s1: "n div 4096 < 64"
    by (rule top_sextet) (use a b in \<open>simp add: n_def\<close>)
  have s2: "n div 64 mod 64 < 64" and s3: "n mod 64 < 64" by simp_all
  have dec: "b64decode (b64encode [a, b]) =
      Some [of_nat ((n div 4096 * 4096 + n div 64 mod 64 * 64 + n mod 64) div 1024),
            of_nat ((n div 4096 * 4096 + n div 64 mod 64 * 64 + n mod 64) div 4 mod 256)]"
    unfolding enc by (rule decode_pad1 [OF s1 s2 s3])
  have h: "n div 1024 = unat a"
    using b by (simp add: n_def)
  have l: "n div 4 mod 256 = unat b"
    using b by (simp add: n_def)
  show ?thesis
    unfolding dec sextets_join2 h l by simp
qed

lemma roundtrip_three:
  assumes "b64decode (b64encode rest) = Some rest"
  shows "b64decode (b64encode (a # b # c # rest)) = Some (a # b # c # rest)"
proof -
  define n where "n = unat a * 65536 + unat b * 256 + unat c"
  have a: "unat a < 256" and b: "unat b < 256" and c: "unat c < 256" by (rule byte_bound)+
  have enc: "b64encode (a # b # c # rest) =
      b64chars ! (n div 262144) # b64chars ! (n div 4096 mod 64)
      # b64chars ! (n div 64 mod 64) # b64chars ! (n mod 64) # b64encode rest"
    by (simp only: b64encode.simps Let_def n_def append.simps)
  have s1: "n div 262144 < 64"
    by (rule top_sextet) (use a b c in \<open>simp add: n_def\<close>)
  have s2: "n div 4096 mod 64 < 64" and s3: "n div 64 mod 64 < 64" and s4: "n mod 64 < 64"
    by simp_all
  have dec: "b64decode (b64encode (a # b # c # rest)) =
      map_option
        (\<lambda>bs. of_nat ((n div 262144 * 262144 + n div 4096 mod 64 * 4096
                        + n div 64 mod 64 * 64 + n mod 64) div 65536)
              # of_nat ((n div 262144 * 262144 + n div 4096 mod 64 * 4096
                        + n div 64 mod 64 * 64 + n mod 64) div 256 mod 256)
              # of_nat ((n div 262144 * 262144 + n div 4096 mod 64 * 4096
                        + n div 64 mod 64 * 64 + n mod 64) mod 256) # bs)
        (b64decode (b64encode rest))"
    unfolding enc by (rule decode_quad [OF s1 s2 s3 s4])
  have h: "n div 65536 = unat a" and m: "n div 256 mod 256 = unat b" and l: "n mod 256 = unat c"
    by (simp_all only: n_def bytes_split [OF b c])
  show ?thesis
    unfolding dec sextets_join h m l assms by simp
qed

text \<open>Decoding what \<open>b64encode\<close> produced gives the bytes back.\<close>

lemma b64_roundtrip: "b64decode (b64encode bs) = Some bs"
proof (induction bs rule: b64encode.induct)
  case 1
  show ?case by simp
next
  case (2 a)
  show ?case by (rule roundtrip_one)
next
  case (3 a b)
  show ?case by (rule roundtrip_two)
next
  case (4 a b c rest)
  from "4.IH" [OF refl] show ?case by (rule roundtrip_three)
qed

section \<open>Encoding a local image\<close>

lemma encode_image_local:
  assumes "\<not> url_source w src"
    and "snd (validate_image_file self w src) = Inr ()"
    and "fs w src = Some n" and "contents n = Some B"
  shows "snd (encode_image_to_base64 self w src)
      = Inr (''data:'' @ get_mime_type (suffix src) False @ '';base64,'' @ b64encode B)"
proof -
  obtain v where v: "is_url w src = ([], Inr v)" and nv: "\<not> truthy v"
    using not_url_source_is_url [OF assms(1)] by blast
  obtain t where t: "validate_image_file self w src = (t, Inr ())"
    using assms(2) by (cases "validate_image_file self w src") simp
  show ?thesis
    using v nv t assms(3,4)
    by (simp add: encode_image_to_base64_def io_defs read_file_def Let_def)
qed

lemma get_mime_type_png: "lower ext = ''.png'' \<Longrightarrow> get_mime_type ext False = ''image/png''"
  by (simp add: get_mime_type_def Let_def)

text \<open>
  C5. For a local file that passes image validation, whose extension is \<open>.png\<close>
  (in any case) and whose content is the bytes \<open>B\<close>, \<open>encode_image_to_base64\<close>
  returns \<open>data:image/png;base64,\<close> followed by the base64 encoding of \<open>B\<close>, and
  decoding that payload gives \<open>B\<close> back.
\<close>

theorem encode_png_roundtrip:
  assumes "\<not> url_source w src"
    and "snd (validate_image_source (file_service_init st) w src) = Inr ()"
    and "lower (suffix src) = ''.png''"
    and "fs w src = Some n" and "contents n = Some B"
  shows "snd (encode_image_to_base64 (file_service_init st) w src)
           = Inr (''data:image/png;base64,'' @ b64encode B)
       \<and> b64decode (b64encode B) = Some B"
proof -
  have "snd (validate_image_file (file_service_init st) w src) = Inr ()"
    using assms(1,2) by (simp add: validate_image_source_local)
  then have "snd (encode_image_to_base64 (file_service_init st) w src)
      = Inr (''data:'' @ get_mime_type (suffix src) False @ '';base64,'' @ b64encode B)"
    by (rule encode_image_local [OF assms(1) _ assms(4) assms(5)])
  then show ?thesis
    by (simp add: get_mime_type_png [OF assms(3)] b64_roundtrip)
qed

lemma b64_example: "b64encode [0x89, 0x50, 0x4E, 0x47] = ''iVBORw==''"
  by (simp add: b64chars_def Let_def)

theorem encode_png_roundtrip_witness:
  "snd (encode_image_to_base64 example_service example_env ''/data/a.png'')
     = Inr ''data:image/png;base64,iVBORw==''
   \<and> b64decode ''iVBORw=='' = Some [0x89, 0x50, 0x4E, 0x47]"
proof -
  have f: "fs example_env ''/data/a.png''
      = Some \<lparr>is_file = True, st_size = 4, contents = Some [0x89, 0x50, 0x4E, 0x47]\<rparr>"
    by (simp add: example_env_def example_fs_def)
  have v: "snd (validate_image_source (file_service_init example_settings) example_env ''/data/a.png'')
      = Inr ()"
    using f
    by (simp add: validate_image_source_local not_url_examples validate_image_file_regular
        example_settings_def exceeds_mb_iff suffix_examples lower_examples init_simps)
  have l: "lower (suffix ''/data/a.png'') = ''.png''"
    by (simp add: suffix_examples lower_examples)
  have r: "snd (encode_image_to_base64 (file_service_init example_settings) example_env
               ''/data/a.png'')
           = Inr (''data:image/png;base64,'' @ b64encode [0x89, 0x50, 0x4E, 0x47])
       \<and> b64decode (b64encode [0x89, 0x50, 0x4E, 0x47]) = Some [0x89, 0x50, 0x4E, 0x47]"
    using not_url_examples(5) v l f by (rule encode_png_roundtrip) simp
  show ?thesis
    using r unfolding b64_example example_service_def by (simp only: append.simps)
qed

end
